theory Spec2Isabelle
  imports Main
begin

section \<open>Python values, exceptions and strings\<close>

text \<open>
  The agent passes tool results around as ordinary Python objects (lists, dicts, strings)
  and stores them in the graph state as their \<open>str\<close> rendering; the chat endpoint reads
  them back with \<open>ast.literal_eval\<close>. A Python \<open>str\<close> is modelled by its UTF-8 bytes.
  Raised exceptions are values: a function that may raise returns \<open>exn + 'a\<close>.
\<close>

datatype exn_kind =
    HttpError | ValueError | SyntaxError | AttributeError | TypeError | OverflowError
  | OSError | ValidationError | UnknownTimeZoneError | GraphRecursionError | OtherException

datatype exn = Exn exn_kind string

fun exn_str :: "exn \<Rightarrow> string" where
  "exn_str (Exn k msg) = msg"

fun exn_kind_of :: "exn \<Rightarrow> exn_kind" where
  "exn_kind_of (Exn k msg) = k"

datatype pyval =
    PyNone
  | PyBool bool
  | PyInt int
  | PyStr string
  | PyList "pyval list"
  | PyDict "(string \<times> pyval) list"

definition NL :: char where "NL = CHR 0x0A"
definition CR :: char where "CR = CHR 0x0D"
definition TAB :: char where "TAB = CHR 0x09"
definition BSL :: char where "BSL = CHR 0x5C"
definition SQ :: char where "SQ = CHR 0x27"
definition DQ :: char where "DQ = CHR 0x22"
definition BQ :: char where "BQ = CHR 0x60"

text \<open>Truthiness, as \<open>if x:\<close> tests it.\<close>

fun truthy :: "pyval \<Rightarrow> bool" where
  "truthy PyNone = False"
| "truthy (PyBool b) = b"
| "truthy (PyInt i) = (i \<noteq> 0)"
| "truthy (PyStr s) = (s \<noteq> [])"
| "truthy (PyList xs) = (xs \<noteq> [])"
| "truthy (PyDict kvs) = (kvs \<noteq> [])"

fun is_dict :: "pyval \<Rightarrow> bool" where
  "is_dict (PyDict kvs) = True"
| "is_dict v = False"

fun is_list :: "pyval \<Rightarrow> bool" where
  "is_list (PyList xs) = True"
| "is_list v = False"

text \<open>\<open>k in d\<close> for a value already known to be a dict (False otherwise).\<close>

fun has_key :: "pyval \<Rightarrow> string \<Rightarrow> bool" where
  "has_key (PyDict kvs) k = (map_of kvs k \<noteq> None)"
| "has_key v k = False"

text \<open>
  \<open>d.get(k, default)\<close>: on a dict the value or the default; any other object has no
  attribute \<open>get\<close>, and Python raises AttributeError.
\<close>

fun py_get :: "pyval \<Rightarrow> string \<Rightarrow> pyval \<Rightarrow> exn + pyval" where
  "py_get (PyDict kvs) k d = Inr (case map_of kvs k of None \<Rightarrow> d | Some v \<Rightarrow> v)"
| "py_get v k d = Inl (Exn AttributeError ''object has no attribute get'')"

text \<open>\<open>d[k] = v\<close>: a key already present keeps its position.\<close>

fun dict_set :: "(string \<times> pyval) list \<Rightarrow> string \<Rightarrow> pyval \<Rightarrow> (string \<times> pyval) list" where
  "dict_set [] k v = [(k, v)]"
| "dict_set ((k', v') # kvs) k v =
     (if k' = k then (k, v) # kvs else (k', v') # dict_set kvs k v)"

subsection \<open>\<open>repr\<close> and \<open>str\<close>\<close>

definition digit :: "nat \<Rightarrow> char" where
  "digit k = ''0123456789abcdef'' ! (k mod 16)"

text \<open>The decimal digits of a number that is not negative.\<close>

function dec :: "int \<Rightarrow> string" where
  "dec n = (if n < 10 then [digit (nat n)] else dec (n div 10) @ [digit (nat (n mod 10))])"
  by pat_completeness auto
termination
  by (relation "measure nat") auto

declare dec.simps [simp del]

definition repr_int :: "int \<Rightarrow> string" where
  "repr_int i = (if i < 0 then CHR ''-'' # dec (- i) else dec i)"

definition join :: "string \<Rightarrow> string list \<Rightarrow> string" where
  "join sep xs = (case xs of [] \<Rightarrow> [] | y # ys \<Rightarrow> y @ concat (map (\<lambda>z. sep @ z) ys))"

text \<open>
  \<open>repr\<close> of a string: single quotes, unless the text has a single quote and no double
  quote; backslash, the chosen quote, newline, carriage return and tab are escaped with a
  backslash, other control bytes as \<open>\xNN\<close>. Bytes of non-ASCII code points are kept
  (Python keeps printable non-ASCII characters).
\<close>

definition esc_char :: "char \<Rightarrow> char \<Rightarrow> string" where
  "esc_char q c =
     (if c = BSL then [BSL, BSL]
      else if c = q then [BSL, q]
      else if c = NL then [BSL, CHR ''n'']
      else if c = CR then [BSL, CHR ''r'']
      else if c = TAB then [BSL, CHR ''t'']
      else if of_char c < (32::nat) \<or> of_char c = (127::nat)
        then [BSL, CHR ''x'', digit (of_char c div 16), digit (of_char c mod 16)]
      else [c])"

definition repr_str :: "string \<Rightarrow> string" where
  "repr_str s =
     (let q = (if SQ \<in> set s \<and> DQ \<notin> set s then DQ else SQ)
      in [q] @ concat (map (esc_char q) s) @ [q])"

fun py_repr :: "pyval \<Rightarrow> string" where
  "py_repr PyNone = ''None''"
| "py_repr (PyBool b) = (if b then ''True'' else ''False'')"
| "py_repr (PyInt i) = repr_int i"
| "py_repr (PyStr s) = repr_str s"
| "py_repr (PyList xs) = ''['' @ join '', '' (map py_repr xs) @ '']''"
| "py_repr (PyDict kvs) =
     ''{'' @ join '', '' (map (\<lambda>kv. repr_str (fst kv) @ '': '' @ py_repr (snd kv)) kvs) @ ''}''"

text \<open>\<open>str(x)\<close>, also what an f-string inserts: the text itself for a string, \<open>repr\<close> otherwise.\<close>

fun py_str :: "pyval \<Rightarrow> string" where
  "py_str (PyStr s) = s"
| "py_str v = py_repr v"

subsection \<open>\<open>ast.literal_eval\<close>\<close>

text \<open>
  The reader for the literals that \<open>py_repr\<close> writes: \<open>None\<close>, booleans, integers,
  quoted strings with the escapes above, lists and dicts with string keys. Everything
  else is reported as the SyntaxError/ValueError that \<open>literal_eval\<close> raises for text
  that is not a literal. The recursion depth is bounded by the fuel, which
  \<open>literal_eval\<close> sets from the length of the text.
\<close>

fun skip_ws :: "string \<Rightarrow> string" where
  "skip_ws [] = []"
| "skip_ws (c # cs) = (if c = CHR '' '' \<or> c = TAB \<or> c = NL \<or> c = CR then skip_ws cs else c # cs)"

definition hexval :: "char \<Rightarrow> nat option" where
  "hexval c =
     (let n = (of_char c :: nat) in
      if 48 \<le> n \<and> n \<le> 57 then Some (n - 48)
      else if 97 \<le> n \<and> n \<le> 102 then Some (n - 87)
      else if 65 \<le> n \<and> n \<le> 70 then Some (n - 55)
      else None)"

fun lit_chars :: "char \<Rightarrow> string \<Rightarrow> (string \<times> string) option" where
  "lit_chars q [] = None"
| "lit_chars q (c # cs) =
     (if c = q then Some ([], cs)
      else if c = BSL then
        (case cs of
           [] \<Rightarrow> None
         | e # r \<Rightarrow>
            (if e = CHR ''x'' then
               (case r of
                  h1 # h2 # r' \<Rightarrow>
                    (case (hexval h1, hexval h2) of
                       (Some a, Some b) \<Rightarrow>
                         map_option (\<lambda>p. (char_of (16 * a + b) # fst p, snd p)) (lit_chars q r')
                     | _ \<Rightarrow> None)
                | _ \<Rightarrow> None)
             else
               (let d = (if e = CHR ''n'' then Some NL
                         else if e = CHR ''r'' then Some CR
                         else if e = CHR ''t'' then Some TAB
                         else if e = BSL \<or> e = SQ \<or> e = DQ then Some e
                         else None)
                in case d of
                     None \<Rightarrow> map_option (\<lambda>p. (BSL # e # fst p, snd p)) (lit_chars q r)
                   | Some x \<Rightarrow> map_option (\<lambda>p. (x # fst p, snd p)) (lit_chars q r))))
      else map_option (\<lambda>p. (c # fst p, snd p)) (lit_chars q cs))"

fun lit_digits :: "int \<Rightarrow> string \<Rightarrow> int \<times> string" where
  "lit_digits acc [] = (acc, [])"
| "lit_digits acc (c # cs) =
     (if 48 \<le> (of_char c :: nat) \<and> (of_char c :: nat) \<le> 57
      then lit_digits (10 * acc + (int (of_char c) - 48)) cs
      else (acc, c # cs))"

definition is_digit :: "char \<Rightarrow> bool" where
  "is_digit c = (48 \<le> (of_char c :: nat) \<and> (of_char c :: nat) \<le> 57)"

definition strip_prefix :: "string \<Rightarrow> string \<Rightarrow> string option" where
  "strip_prefix p s = (if take (length p) s = p then Some (drop (length p) s) else None)"

fun p_value :: "nat \<Rightarrow> string \<Rightarrow> (pyval \<times> string) option"
and p_items :: "nat \<Rightarrow> string \<Rightarrow> (pyval list \<times> string) option"
and p_pairs :: "nat \<Rightarrow> string \<Rightarrow> ((string \<times> pyval) list \<times> string) option" where
  "p_value 0 s = None"
| "p_value (Suc n) s =
     (case skip_ws s of
        [] \<Rightarrow> None
      | c # r \<Rightarrow>
         (if c = CHR ''['' then map_option (\<lambda>p. (PyList (fst p), snd p)) (p_items n r)
          else if c = CHR ''{'' then map_option (\<lambda>p. (PyDict (fst p), snd p)) (p_pairs n r)
          else if c = SQ \<or> c = DQ then map_option (\<lambda>p. (PyStr (fst p), snd p)) (lit_chars c r)
          else if c = CHR ''-'' then
            (case r of
               [] \<Rightarrow> None
             | d # r' \<Rightarrow> if is_digit d
                 then Some (PyInt (- fst (lit_digits 0 r)), snd (lit_digits 0 r))
                 else None)
          else if is_digit c then
            Some (PyInt (fst (lit_digits 0 (c # r))), snd (lit_digits 0 (c # r)))
          else
            (case strip_prefix ''None'' (c # r) of
               Some r' \<Rightarrow> Some (PyNone, r')
             | None \<Rightarrow>
                (case strip_prefix ''True'' (c # r) of
                   Some r' \<Rightarrow> Some (PyBool True, r')
                 | None \<Rightarrow>
                    (case strip_prefix ''False'' (c # r) of
                       Some r' \<Rightarrow> Some (PyBool False, r')
                     | None \<Rightarrow> None)))))"
| "p_items 0 s = None"
| "p_items (Suc n) s =
     (case skip_ws s of
        [] \<Rightarrow> None
      | c # r \<Rightarrow>
         (if c = CHR '']'' then Some ([], r)
          else
            (case p_value n (c # r) of
               None \<Rightarrow> None
             | Some (v, r1) \<Rightarrow>
                (case skip_ws r1 of
                   [] \<Rightarrow> None
                 | c1 # r2 \<Rightarrow>
                    (if c1 = CHR '']'' then Some ([v], r2)
                     else if c1 = CHR '','' then
                       map_option (\<lambda>p. (v # fst p, snd p)) (p_items n r2)
                     else None)))))"
| "p_pairs 0 s = None"
| "p_pairs (Suc n) s =
     (case skip_ws s of
        [] \<Rightarrow> None
      | c # r \<Rightarrow>
         (if c = CHR ''}'' then Some ([], r)
          else if c = SQ \<or> c = DQ then
            (case lit_chars c r of
               None \<Rightarrow> None
             | Some (k, r1) \<Rightarrow>
                (case skip_ws r1 of
                   [] \<Rightarrow> None
                 | c1 # r2 \<Rightarrow>
                    (if c1 = CHR '':'' then
                       (case p_value n r2 of
                          None \<Rightarrow> None
                        | Some (v, r3) \<Rightarrow>
                           (case skip_ws r3 of
                              [] \<Rightarrow> None
                            | c2 # r4 \<Rightarrow>
                               (if c2 = CHR ''}'' then Some ([(k, v)], r4)
                                else if c2 = CHR '','' then
                                  map_option (\<lambda>p. ((k, v) # fst p, snd p)) (p_pairs n r4)
                                else None)))
                     else None)))
          else None))"

text \<open>A repeated key keeps its first position and its last value, as a dict display does.\<close>

fun dict_of_pairs :: "(string \<times> pyval) list \<Rightarrow> (string \<times> pyval) list \<Rightarrow> (string \<times> pyval) list" where
  "dict_of_pairs acc [] = acc"
| "dict_of_pairs acc ((k, v) # kvs) = dict_of_pairs (dict_set acc k v) kvs"

fun normalise :: "pyval \<Rightarrow> pyval" where
  "normalise (PyList xs) = PyList (map normalise xs)"
| "normalise (PyDict kvs) = PyDict (dict_of_pairs [] (map (\<lambda>kv. (fst kv, normalise (snd kv))) kvs))"
| "normalise v = v"

definition literal_eval :: "string \<Rightarrow> exn + pyval" where
  "literal_eval s =
     (case p_value (2 * length s + 2) s of
        None \<Rightarrow> Inl (Exn SyntaxError ''invalid syntax'')
      | Some (v, r) \<Rightarrow>
         (if skip_ws r = [] then Inr (normalise v)
          else Inl (Exn SyntaxError ''invalid syntax'')))"

section \<open>Time zones and datetimes\<close>

text \<open>
  A \<open>datetime\<close> is its wall-clock reading, counted in seconds from 1970-01-01T00:00:00,
  its microseconds, and the \<open>tzinfo\<close> attached to it: \<open>None\<close> for a naive value, otherwise
  a zone name with the offset from UTC (in seconds) that applies to this value. Python's
  datetimes lie between 0001-01-01T00:00:00 and 9999-12-31T23:59:59; arithmetic that
  leaves this range raises OverflowError.

  A \<open>pytz\<close> zone is a name and its offset as a function of the instant (in UTC seconds),
  so that daylight-saving and historical offsets are covered, and the offset that
  \<open>localize\<close> chooses for a naive reading.
\<close>

record tzinfo =
  tz_name :: string
  tz_utcoffset :: int

record datetime =
  wall :: int
  micro :: int
  dt_tzinfo :: "tzinfo option"

record zone =
  zone_name :: string
  zone_utcoffset :: "int \<Rightarrow> int"
  zone_walloffset :: "int \<Rightarrow> int"

definition min_wall :: int where
  "min_wall = - 62135596800"

definition max_wall :: int where
  "max_wall = 253402300799"

definition in_range :: "int \<Rightarrow> bool" where
  "in_range w = (min_wall \<le> w \<and> w \<le> max_wall)"

text \<open>
  \<open>dt.astimezone(tz)\<close>: the same instant read in \<open>tz\<close>. Python takes a naive \<open>dt\<close> to be
  in the local zone of the machine, whose offset for that reading is \<open>local_off (wall dt)\<close>
  (the lookup may raise on some platforms), not in \<open>tz\<close>. The instant in UTC and the
  result must both be representable.
\<close>

definition astimezone :: "(int \<Rightarrow> exn + int) \<Rightarrow> datetime \<Rightarrow> zone \<Rightarrow> exn + datetime" where
  "astimezone local_off dt tz =
     (case (case dt_tzinfo dt of None \<Rightarrow> local_off (wall dt) | Some t \<Rightarrow> Inr (tz_utcoffset t)) of
        Inl e \<Rightarrow> Inl e
      | Inr off \<Rightarrow>
         (let utc = wall dt - off in
          if \<not> in_range utc then Inl (Exn OverflowError ''date value out of range'')
          else
            (let w = utc + zone_utcoffset tz utc in
             if \<not> in_range w then Inl (Exn OverflowError ''date value out of range'')
             else Inr \<lparr>wall = w, micro = micro dt,
                       dt_tzinfo = Some \<lparr>tz_name = zone_name tz,
                                          tz_utcoffset = zone_utcoffset tz utc\<rparr>\<rparr>)))"

text \<open>\<open>tz.localize(dt)\<close>: attach \<open>tz\<close> to a naive reading; pytz raises ValueError on an aware one.\<close>

definition localize :: "zone \<Rightarrow> datetime \<Rightarrow> exn + datetime" where
  "localize tz dt =
     (case dt_tzinfo dt of
        None \<Rightarrow> Inr (dt\<lparr>dt_tzinfo := Some \<lparr>tz_name = zone_name tz,
                                             tz_utcoffset = zone_walloffset tz (wall dt)\<rparr>\<rparr>)
      | Some t \<Rightarrow> Inl (Exn ValueError ''Not naive datetime (tzinfo is already set)''))"

subsection \<open>\<open>isoformat\<close>\<close>

definition pad2 :: "int \<Rightarrow> string" where
  "pad2 n = [digit (nat ((n div 10) mod 10)), digit (nat (n mod 10))]"

definition pad4 :: "int \<Rightarrow> string" where
  "pad4 n = [digit (nat ((n div 1000) mod 10)), digit (nat ((n div 100) mod 10)),
             digit (nat ((n div 10) mod 10)), digit (nat (n mod 10))]"

text \<open>Day count since 1970-01-01 to (year, month, day) in the proleptic Gregorian calendar.\<close>

definition civil_from_days :: "int \<Rightarrow> int \<times> int \<times> int" where
  "civil_from_days z =
     (let z' = z + 719468;
          era = z' div 146097;
          doe = z' - era * 146097;
          yoe = (doe - doe div 1460 + doe div 36524 - doe div 146096) div 365;
          y = yoe + era * 400;
          doy = doe - (365 * yoe + yoe div 4 - yoe div 100);
          mp = (5 * doy + 2) div 153;
          d = doy - (153 * mp + 2) div 5 + 1;
          m = (if mp < 10 then mp + 3 else mp - 9)
      in (if m \<le> 2 then y + 1 else y, m, d))"

definition days_from_civil :: "int \<Rightarrow> int \<Rightarrow> int \<Rightarrow> int" where
  "days_from_civil y m d =
     (let y' = (if m \<le> 2 then y - 1 else y);
          era = y' div 400;
          yoe = y' - era * 400;
          doy = (153 * (if m > 2 then m - 3 else m + 9) + 2) div 5 + d - 1;
          doe = yoe * 365 + yoe div 4 - yoe div 100 + doy
      in era * 146097 + doe - 719468)"

definition pad6 :: "int \<Rightarrow> string" where
  "pad6 n = pad2 (n div 10000) @ pad4 (n mod 10000)"

text \<open>The offset is printed as \<open>+HH:MM\<close>, with \<open>:SS\<close> when it has seconds.\<close>

definition iso_offset :: "int \<Rightarrow> string" where
  "iso_offset off =
     (let a = abs off in
      (if off < 0 then ''-'' else ''+'') @ pad2 (a div 3600) @ '':'' @ pad2 ((a mod 3600) div 60)
      @ (if a mod 60 = 0 then [] else '':'' @ pad2 (a mod 60)))"

text \<open>\<open>dt.isoformat()\<close>: the microseconds are printed when they are not zero.\<close>

definition isoformat :: "datetime \<Rightarrow> string" where
  "isoformat dt =
     (let days = wall dt div 86400;
          secs = wall dt mod 86400;
          ymd = civil_from_days days
      in pad4 (fst ymd) @ ''-'' @ pad2 (fst (snd ymd)) @ ''-'' @ pad2 (snd (snd ymd))
         @ ''T'' @ pad2 (secs div 3600) @ '':'' @ pad2 ((secs mod 3600) div 60) @ '':'' @ pad2 (secs mod 60)
         @ (if micro dt = 0 then [] else ''.'' @ pad6 (micro dt))
         @ (case dt_tzinfo dt of None \<Rightarrow> [] | Some z \<Rightarrow> iso_offset (tz_utcoffset z)))"

section \<open>The environment: libraries and remote services\<close>

text \<open>
  What the program reaches outside itself is a parameter: the zone database
  (\<open>pytz.timezone\<close>), the ISO parser (\<open>datetime.fromisoformat\<close>), the offset of the
  machine's local zone for a wall-clock reading, the two calendar API requests, which read and change the calendar \<open>'b\<close>, and the
  language model. Each may raise.
\<close>

record freebusy_body =
  timeMin :: string
  timeMax :: string
  items :: "string list"

record event_time =
  dateTime :: string
  timeZone :: string

record event_body =
  ev_summary :: string
  ev_description :: string
  ev_start :: event_time
  ev_end :: event_time
  ev_reminders_useDefault :: bool
  ev_attendees :: "string list option"

record tool_call =
  tc_name :: string
  tc_args :: "(string \<times> pyval) list"

datatype message =
    HumanMessage string
  | AIMessage string "tool_call list"

fun content :: "message \<Rightarrow> string" where
  "content (HumanMessage c) = c"
| "content (AIMessage c tcs) = c"

record 'b env =
  local_utcoffset :: "int \<Rightarrow> exn + int"
  pytz_timezone :: "string \<Rightarrow> exn + zone"
  fromisoformat :: "string \<Rightarrow> exn + datetime"
  freebusy_query :: "freebusy_body \<Rightarrow> 'b \<Rightarrow> (exn + pyval) \<times> 'b"
  events_insert :: "event_body \<Rightarrow> 'b \<Rightarrow> (exn + pyval) \<times> 'b"
  llm_invoke :: "message list \<Rightarrow> exn + message"

section \<open>Calendar client (google_calendar.py)\<close>

text \<open>
  \<open>check_calendar_availability\<close>: builds the free/busy request and reads the busy list of
  the primary calendar out of the answer. Only HttpError is caught (the result is then the
  empty list); any other exception leaves the function.
\<close>

definition check_calendar_availability ::
  "'b env \<Rightarrow> datetime \<Rightarrow> datetime \<Rightarrow> 'b \<Rightarrow> (exn + pyval) \<times> 'b" where
  "check_calendar_availability env start_time end_time b =
     (let body = \<lparr>timeMin = isoformat start_time, timeMax = isoformat end_time,
                  items = [''primary'']\<rparr>
      in case freebusy_query env body b of
           (Inl e, b') \<Rightarrow>
             (if exn_kind_of e = HttpError then (Inr (PyList []), b') else (Inl e, b'))
         | (Inr events_result, b') \<Rightarrow>
             (case py_get events_result ''calendars'' (PyDict []) of
                Inl e \<Rightarrow> (Inl e, b')
              | Inr cals \<Rightarrow>
                 (case py_get cals ''primary'' (PyDict []) of
                    Inl e \<Rightarrow> (Inl e, b')
                  | Inr prim \<Rightarrow> (py_get prim ''busy'' (PyList []), b'))))"

text \<open>
  The event payload of \<open>create_calendar_event\<close>: the dict literal, with the attendees
  added only for a non-empty list.
\<close>

definition event_payload ::
  "string \<Rightarrow> string \<Rightarrow> datetime \<Rightarrow> datetime \<Rightarrow> string list option \<Rightarrow> event_body" where
  "event_payload summary description start_time end_time attendees =
     \<lparr>ev_summary = summary,
      ev_description = description,
      ev_start = \<lparr>dateTime = isoformat start_time, timeZone = ''Asia/Kolkata''\<rparr>,
      ev_end = \<lparr>dateTime = isoformat end_time, timeZone = ''Asia/Kolkata''\<rparr>,
      ev_reminders_useDefault = True,
      ev_attendees = (case attendees of
                        None \<Rightarrow> None
                      | Some as \<Rightarrow> if as = [] then None else Some as)\<rparr>"

text \<open>
  \<open>create_calendar_event\<close>: inserts the payload. HttpError gives \<open>None\<close>; after a
  successful insert the link is printed with \<open>event.get('htmlLink')\<close>, which raises
  AttributeError when the answer is not a dict.
\<close>

definition create_calendar_event ::
  "'b env \<Rightarrow> string \<Rightarrow> string \<Rightarrow> datetime \<Rightarrow> datetime \<Rightarrow> string list option \<Rightarrow> 'b
     \<Rightarrow> (exn + pyval) \<times> 'b" where
  "create_calendar_event env summary description start_time end_time attendees b =
     (case events_insert env (event_payload summary description start_time end_time attendees) b of
        (Inl e, b') \<Rightarrow>
          (if exn_kind_of e = HttpError then (Inr PyNone, b') else (Inl e, b'))
      | (Inr event, b') \<Rightarrow>
          (case py_get event ''htmlLink'' PyNone of
             Inl e \<Rightarrow> (Inl e, b')
           | Inr link \<Rightarrow> (Inr event, b')))"

section \<open>Tool adapters (agent_tools.py)\<close>

text \<open>
  Both adapters start with the same lines: look the zone up, parse each string and convert
  it with \<open>astimezone\<close>, then localise whatever is still naive.
\<close>

definition parse_time :: "'b env \<Rightarrow> zone \<Rightarrow> string \<Rightarrow> exn + datetime" where
  "parse_time env target_tz time_str =
     (case fromisoformat env time_str of
        Inl e \<Rightarrow> Inl e
      | Inr dt \<Rightarrow> astimezone (local_utcoffset env) dt target_tz)"

definition ensure_aware :: "zone \<Rightarrow> datetime \<Rightarrow> exn + datetime" where
  "ensure_aware target_tz dt =
     (if dt_tzinfo dt = None then localize target_tz dt else Inr dt)"

definition parse_times ::
  "'b env \<Rightarrow> string \<Rightarrow> string \<Rightarrow> string \<Rightarrow> exn + (datetime \<times> datetime)" where
  "parse_times env start_time_str end_time_str timezone_str =
     (case pytz_timezone env timezone_str of
        Inl e \<Rightarrow> Inl e
      | Inr target_tz \<Rightarrow>
         (case parse_time env target_tz start_time_str of
            Inl e \<Rightarrow> Inl e
          | Inr start0 \<Rightarrow>
             (case parse_time env target_tz end_time_str of
                Inl e \<Rightarrow> Inl e
              | Inr end0 \<Rightarrow>
                 (case ensure_aware target_tz start0 of
                    Inl e \<Rightarrow> Inl e
                  | Inr start_time \<Rightarrow>
                     (case ensure_aware target_tz end0 of
                        Inl e \<Rightarrow> Inl e
                      | Inr end_time \<Rightarrow> Inr (start_time, end_time))))))"

text \<open>
  The bodies of the two tools. The result is \<open>exn + pyval\<close> so that "never raises" is a
  statement about the function and not about its type: every exception of the
  \<open>try\<close> block ends in the \<open>except Exception\<close> branch.
\<close>

definition check_calendar_availability_tool ::
  "'b env \<Rightarrow> string \<Rightarrow> string \<Rightarrow> string \<Rightarrow> 'b \<Rightarrow> (exn + pyval) \<times> 'b" where
  "check_calendar_availability_tool env start_time_str end_time_str timezone_str b =
     (case parse_times env start_time_str end_time_str timezone_str of
        Inl e \<Rightarrow> (Inr (PyList []), b)
      | Inr (start_time, end_time) \<Rightarrow>
         (case check_calendar_availability env start_time end_time b of
            (Inl e, b') \<Rightarrow> (Inr (PyList []), b')
          | (Inr busy_periods, b') \<Rightarrow> (Inr busy_periods, b')))"

definition create_calendar_event_tool ::
  "'b env \<Rightarrow> string \<Rightarrow> string \<Rightarrow> string \<Rightarrow> string \<Rightarrow> string list option \<Rightarrow> string \<Rightarrow> 'b
     \<Rightarrow> (exn + pyval) \<times> 'b" where
  "create_calendar_event_tool env summary description start_time_str end_time_str attendees
       timezone_str b =
     (case parse_times env start_time_str end_time_str timezone_str of
        Inl e \<Rightarrow> (Inr (PyDict []), b)
      | Inr (start_time, end_time) \<Rightarrow>
         (case create_calendar_event env summary description start_time end_time attendees b of
            (Inl e, b') \<Rightarrow> (Inr (PyDict []), b')
          | (Inr event, b') \<Rightarrow> (Inr (if truthy event then event else PyDict []), b')))"

subsection \<open>Invoking a tool with the model's arguments\<close>

text \<open>
  \<open>tool.invoke(tool_args)\<close> binds the argument dict to the parameters of the function
  before the body (and its \<open>try\<close>) is entered: a missing required argument or one of the
  wrong type is rejected there, with an exception that the body cannot catch. An absent
  optional argument takes its default.
\<close>

definition arg_str :: "(string \<times> pyval) list \<Rightarrow> string \<Rightarrow> exn + string" where
  "arg_str args k =
     (case map_of args k of
        None \<Rightarrow> Inl (Exn ValidationError (''Field required: '' @ k))
      | Some (PyStr s) \<Rightarrow> Inr s
      | Some v \<Rightarrow> Inl (Exn ValidationError (''Input should be a valid string: '' @ k)))"

definition arg_str_default :: "(string \<times> pyval) list \<Rightarrow> string \<Rightarrow> string \<Rightarrow> exn + string" where
  "arg_str_default args k d =
     (case map_of args k of
        None \<Rightarrow> Inr d
      | Some (PyStr s) \<Rightarrow> Inr s
      | Some v \<Rightarrow> Inl (Exn ValidationError (''Input should be a valid string: '' @ k)))"

fun str_items :: "pyval list \<Rightarrow> string list option" where
  "str_items [] = Some []"
| "str_items (PyStr s # vs) = map_option (\<lambda>ss. s # ss) (str_items vs)"
| "str_items (v # vs) = None"

definition arg_attendees :: "(string \<times> pyval) list \<Rightarrow> exn + string list option" where
  "arg_attendees args =
     (case map_of args ''attendees'' of
        None \<Rightarrow> Inr None
      | Some PyNone \<Rightarrow> Inr None
      | Some (PyList vs) \<Rightarrow>
         (case str_items vs of
            Some ss \<Rightarrow> Inr (Some ss)
          | None \<Rightarrow> Inl (Exn ValidationError ''Input should be a valid string: attendees''))
      | Some v \<Rightarrow> Inl (Exn ValidationError ''Input should be a valid list: attendees''))"

definition invoke_check :: "'b env \<Rightarrow> (string \<times> pyval) list \<Rightarrow> 'b \<Rightarrow> (exn + pyval) \<times> 'b" where
  "invoke_check env args b =
     (case arg_str args ''start_time_str'' of
        Inl e \<Rightarrow> (Inl e, b)
      | Inr s \<Rightarrow>
         (case arg_str args ''end_time_str'' of
            Inl e \<Rightarrow> (Inl e, b)
          | Inr e' \<Rightarrow>
             (case arg_str_default args ''timezone_str'' ''Asia/Kolkata'' of
                Inl e \<Rightarrow> (Inl e, b)
              | Inr tz \<Rightarrow> check_calendar_availability_tool env s e' tz b)))"

definition invoke_create :: "'b env \<Rightarrow> (string \<times> pyval) list \<Rightarrow> 'b \<Rightarrow> (exn + pyval) \<times> 'b" where
  "invoke_create env args b =
     (case arg_str args ''summary'' of
        Inl e \<Rightarrow> (Inl e, b)
      | Inr summary \<Rightarrow>
         (case arg_str args ''description'' of
            Inl e \<Rightarrow> (Inl e, b)
          | Inr description \<Rightarrow>
             (case arg_str args ''start_time_str'' of
                Inl e \<Rightarrow> (Inl e, b)
              | Inr s \<Rightarrow>
                 (case arg_str args ''end_time_str'' of
                    Inl e \<Rightarrow> (Inl e, b)
                  | Inr e' \<Rightarrow>
                     (case arg_attendees args of
                        Inl e \<Rightarrow> (Inl e, b)
                      | Inr attendees \<Rightarrow>
                         (case arg_str_default args ''timezone_str'' ''Asia/Kolkata'' of
                            Inl e \<Rightarrow> (Inl e, b)
                          | Inr tz \<Rightarrow>
                             create_calendar_event_tool env summary description s e'
                               attendees tz b))))))"

section \<open>Agent state and graph nodes (agent_state.py, main.py)\<close>

text \<open>
  Of the fields of \<open>AgentState\<close> only \<open>messages\<close> and \<open>tool_output\<close> are ever written.
  A node returns a partial update; the graph merges it with the reducer of each field:
  \<open>messages\<close> is annotated with \<open>lambda x, y: x + y\<close>, every other field is overwritten.
  A key never written is absent from the state.
\<close>

record agent_state =
  messages :: "message list"
  tool_output :: "string option"

record state_update =
  upd_messages :: "message list option"
  upd_tool_output :: "string option"

definition empty_state :: agent_state where
  "empty_state = \<lparr>messages = [], tool_output = None\<rparr>"

definition apply_update :: "agent_state \<Rightarrow> state_update \<Rightarrow> agent_state" where
  "apply_update st u =
     \<lparr>messages = (case upd_messages u of None \<Rightarrow> messages st | Some ms \<Rightarrow> messages st @ ms),
      tool_output = (case upd_tool_output u of None \<Rightarrow> tool_output st | Some t \<Rightarrow> Some t)\<rparr>"

definition call_model :: "'b env \<Rightarrow> agent_state \<Rightarrow> exn + state_update" where
  "call_model env state =
     (case llm_invoke env (messages state) of
        Inl e \<Rightarrow> Inl e
      | Inr response \<Rightarrow> Inr \<lparr>upd_messages = Some [response], upd_tool_output = None\<rparr>)"

text \<open>One pass of the loop body of \<open>call_tool\<close>: the dispatch on the tool's name.\<close>

definition dispatch :: "'b env \<Rightarrow> tool_call \<Rightarrow> 'b \<Rightarrow> (exn + pyval) \<times> 'b" where
  "dispatch env tool_call b =
     (let tool_name = tc_name tool_call; tool_args = tc_args tool_call in
      if tool_name = ''check_calendar_availability_tool'' then invoke_check env tool_args b
      else if tool_name = ''create_calendar_event_tool'' then invoke_create env tool_args b
      else (Inr (PyStr (''Error: Unknown tool '' @ tool_name)), b))"

text \<open>The \<open>for\<close> loop: results are appended in turn; an exception ends the loop.\<close>

fun tool_loop :: "'b env \<Rightarrow> tool_call list \<Rightarrow> pyval list \<Rightarrow> 'b \<Rightarrow> (exn + pyval list) \<times> 'b" where
  "tool_loop env [] tool_output_list b = (Inr tool_output_list, b)"
| "tool_loop env (tool_call # rest) tool_output_list b =
     (case dispatch env tool_call b of
        (Inl e, b') \<Rightarrow> (Inl e, b')
      | (Inr tool_result, b') \<Rightarrow> tool_loop env rest (tool_output_list @ [tool_result]) b')"

definition call_tool :: "'b env \<Rightarrow> agent_state \<Rightarrow> 'b \<Rightarrow> (exn + state_update) \<times> 'b" where
  "call_tool env state b =
     (case rev (messages state) of
        [] \<Rightarrow> (Inl (Exn OtherException ''list index out of range''), b)
      | HumanMessage c # earlier \<Rightarrow>
          (Inl (Exn AttributeError ''HumanMessage object has no attribute tool_calls''), b)
      | AIMessage c tool_calls # earlier \<Rightarrow>
          (case tool_loop env tool_calls [] b of
             (Inl e, b') \<Rightarrow> (Inl e, b')
           | (Inr tool_output_list, b') \<Rightarrow>
               (Inr \<lparr>upd_messages = None,
                     upd_tool_output = Some (py_str (PyList tool_output_list))\<rparr>, b')))"

subsection \<open>The graph\<close>

datatype node = N_call_model | N_call_tool | N_END

definition edges :: "(node \<times> node) list" where
  "edges = [(N_call_model, N_call_tool), (N_call_tool, N_END)]"

definition entry_point :: node where
  "entry_point = N_call_model"

definition recursion_limit :: nat where
  "recursion_limit = 25"

fun run_node :: "'b env \<Rightarrow> node \<Rightarrow> agent_state \<Rightarrow> 'b \<Rightarrow> (exn + state_update) \<times> 'b" where
  "run_node env N_call_model state b = (call_model env state, b)"
| "run_node env N_call_tool state b = call_tool env state b"
| "run_node env N_END state b = (Inr \<lparr>upd_messages = None, upd_tool_output = None\<rparr>, b)"

text \<open>
  A run of the graph from a node: the exception that ended it (if any), the state after
  the last node that finished, and the nodes entered, in order. The graph runtime gives up
  with GraphRecursionError after \<open>recursion_limit\<close> steps.
\<close>

record 'b run =
  raised :: "exn option"
  reached :: agent_state
  trace :: "node list"
  backend :: 'b

fun run_from :: "nat \<Rightarrow> 'b env \<Rightarrow> node \<Rightarrow> agent_state \<Rightarrow> node list \<Rightarrow> 'b \<Rightarrow> 'b run" where
  "run_from fuel env N_END state tr b =
     \<lparr>raised = None, reached = state, trace = tr, backend = b\<rparr>"
| "run_from 0 env n state tr b =
     \<lparr>raised = Some (Exn GraphRecursionError ''Recursion limit reached''),
      reached = state, trace = tr, backend = b\<rparr>"
| "run_from (Suc fuel) env n state tr b =
     (case run_node env n state b of
        (Inl e, b') \<Rightarrow> \<lparr>raised = Some e, reached = state, trace = tr @ [n], backend = b'\<rparr>
      | (Inr u, b') \<Rightarrow>
         (case map_of edges n of
            None \<Rightarrow> \<lparr>raised = None, reached = apply_update state u, trace = tr @ [n], backend = b'\<rparr>
          | Some n' \<Rightarrow> run_from fuel env n' (apply_update state u) (tr @ [n]) b'))"

text \<open>
  \<open>app_agent.invoke(input, config)\<close> with the in-memory checkpointer: the state saved for
  the thread (the empty state for a new thread) takes the input through the reducers, and
  the graph runs from its entry point. The state reached is saved for the thread.
\<close>

type_synonym checkpoints = "string \<Rightarrow> agent_state option"

definition invoke :: "'b env \<Rightarrow> checkpoints \<Rightarrow> string \<Rightarrow> state_update \<Rightarrow> 'b \<Rightarrow> 'b run \<times> checkpoints" where
  "invoke env memory thread_id input b =
     (let state0 = (case memory thread_id of None \<Rightarrow> empty_state | Some st \<Rightarrow> st);
          r = run_from recursion_limit env entry_point (apply_update state0 input) [] b
      in (r, memory(thread_id \<mapsto> reached r)))"

section \<open>The chat endpoint (main.py)\<close>

text \<open>The emoji of the reply templates, as their UTF-8 bytes.\<close>

definition CHECK_MARK :: string where
  "CHECK_MARK = [CHR 0xE2, CHR 0x9C, CHR 0x85]"

definition CALENDAR_MARK :: string where
  "CALENDAR_MARK = [CHR 0xF0, CHR 0x9F, CHR 0x97, CHR 0x93, CHR 0xEF, CHR 0xB8, CHR 0x8F]"

definition GEAR_MARK :: string where
  "GEAR_MARK = [CHR 0xE2, CHR 0x9A, CHR 0x99, CHR 0xEF, CHR 0xB8, CHR 0x8F]"

definition WARNING_MARK :: string where
  "WARNING_MARK = [CHR 0xE2, CHR 0x9A, CHR 0xA0, CHR 0xEF, CHR 0xB8, CHR 0x8F]"

definition event_created_text :: "pyval \<Rightarrow> exn + string" where
  "event_created_text event =
     (case py_get event ''summary'' (PyStr ''An event'') of
        Inl e \<Rightarrow> Inl e
      | Inr summary \<Rightarrow>
     (case py_get event ''htmlLink'' (PyStr ''#'') of
        Inl e \<Rightarrow> Inl e
      | Inr html_link \<Rightarrow>
     (case py_get event ''start'' (PyDict []) of
        Inl e \<Rightarrow> Inl e
      | Inr start \<Rightarrow>
     (case py_get start ''dateTime'' (PyStr ''N/A'') of
        Inl e \<Rightarrow> Inl e
      | Inr start_time \<Rightarrow>
     (case py_get event ''end'' (PyDict []) of
        Inl e \<Rightarrow> Inl e
      | Inr end' \<Rightarrow>
     (case py_get end' ''dateTime'' (PyStr ''N/A'') of
        Inl e \<Rightarrow> Inl e
      | Inr end_time \<Rightarrow>
          Inr ([NL, NL] @ ''**'' @ CHECK_MARK @ '' Event Created Successfully!**'' @ [NL]
               @ ''- **Title:** '' @ py_str summary @ [NL]
               @ ''- **Time:** '' @ py_str start_time @ '' to '' @ py_str end_time @ [NL]
               @ ''- **View Event:** [Click here]('' @ py_str html_link @ '')'' @ [NL]
               @ ''*(Please check your Google Calendar for full details and invites.)*'')))))))"

definition slot_line :: "pyval \<Rightarrow> exn + string" where
  "slot_line slot =
     (case py_get slot ''start'' (PyStr ''N/A'') of
        Inl e \<Rightarrow> Inl e
      | Inr s \<Rightarrow>
         (case py_get slot ''end'' (PyStr ''N/A'') of
            Inl e \<Rightarrow> Inl e
          | Inr e' \<Rightarrow>
             Inr (''  - From '' @ [BQ] @ py_str s @ [BQ] @ '' to '' @ [BQ] @ py_str e' @ [BQ])))"

fun slot_lines :: "pyval list \<Rightarrow> exn + string list" where
  "slot_lines [] = Inr []"
| "slot_lines (slot # rest) =
     (case slot_line slot of
        Inl e \<Rightarrow> Inl e
      | Inr l \<Rightarrow> (case slot_lines rest of Inl e \<Rightarrow> Inl e | Inr ls \<Rightarrow> Inr (l # ls)))"

definition busy_slots_text :: "string list \<Rightarrow> string" where
  "busy_slots_text formatted_output_slots =
     [NL, NL] @ ''**'' @ CALENDAR_MARK @ '' Calendar Availability:**'' @ [NL]
     @ ''The following slots are busy:'' @ [NL]
     @ join [NL] formatted_output_slots"

definition free_text :: string where
  "free_text = [NL, NL] @ ''**'' @ CHECK_MARK
     @ '' Calendar Availability:** You appear to be free during that period!''"

definition raw_text :: "string \<Rightarrow> string" where
  "raw_text tool_output_raw =
     [NL, NL] @ ''**'' @ GEAR_MARK @ '' Raw Tool Output:**'' @ [NL]
     @ [BQ, BQ, BQ] @ ''json'' @ [NL] @ tool_output_raw @ [NL] @ [BQ, BQ, BQ]"

definition parse_error_text :: "string \<Rightarrow> string" where
  "parse_error_text tool_output_raw =
     [NL, NL] @ ''**'' @ WARNING_MARK @ '' Tool Output Parsing Error:**'' @ [NL]
     @ [BQ, BQ, BQ] @ [NL] @ tool_output_raw @ [NL] @ [BQ, BQ, BQ]"

text \<open>The first element of a list, for the test \<open>isinstance(tool_data[0], dict)\<close>.\<close>

fun first_item :: "pyval \<Rightarrow> pyval option" where
  "first_item (PyList (x # xs)) = Some x"
| "first_item v = None"

definition is_event_list :: "pyval \<Rightarrow> bool" where
  "is_event_list tool_data =
     (case first_item tool_data of
        None \<Rightarrow> False
      | Some x \<Rightarrow> is_dict x \<and> py_get x ''kind'' PyNone = Inr (PyStr ''calendar#event''))"

fun is_slot_list :: "pyval \<Rightarrow> bool" where
  "is_slot_list (PyList xs) =
     list_all (\<lambda>item. is_dict item \<and> has_key item ''start'' \<and> has_key item ''end'') xs"
| "is_slot_list v = False"

fun list_items :: "pyval \<Rightarrow> pyval list" where
  "list_items (PyList xs) = xs"
| "list_items v = []"

text \<open>
  The branches on the parsed tool output, in the order of the source; the text to append
  to the reply, or the exception that leaves the inner \<open>try\<close>.
\<close>

definition format_tool_data :: "pyval \<Rightarrow> string \<Rightarrow> exn + string" where
  "format_tool_data tool_data tool_output_raw =
     (if truthy tool_data then
        (if is_event_list tool_data then
           (case first_item tool_data of
              None \<Rightarrow> Inr []
            | Some event \<Rightarrow> event_created_text event)
         else if is_slot_list tool_data then
           (if truthy tool_data then
              (case slot_lines (list_items tool_data) of
                 Inl e \<Rightarrow> Inl e
               | Inr formatted_output_slots \<Rightarrow> Inr (busy_slots_text formatted_output_slots))
            else Inr free_text)
         else Inr (raw_text tool_output_raw))
      else Inr [])"

definition format_tool_output :: "string \<Rightarrow> exn + string" where
  "format_tool_output tool_output_raw =
     (case literal_eval tool_output_raw of
        Inl e \<Rightarrow>
          (if exn_kind_of e = ValueError \<or> exn_kind_of e = SyntaxError
           then Inr (parse_error_text tool_output_raw) else Inl e)
      | Inr tool_data \<Rightarrow> format_tool_data tool_data tool_output_raw)"

record chat_request =
  message :: string
  session_id :: string

text \<open>The body of the outer \<open>try\<close>: the reply, or the exception that reaches \<open>except\<close>.\<close>

definition chat_try ::
  "'b env \<Rightarrow> checkpoints \<Rightarrow> chat_request \<Rightarrow> 'b \<Rightarrow> (exn + string) \<times> checkpoints \<times> 'b" where
  "chat_try env memory chat_request b =
     (let input_message = \<lparr>upd_messages = Some [HumanMessage (message chat_request)],
                           upd_tool_output = None\<rparr>;
          (r, memory') = invoke env memory (session_id chat_request) input_message b
      in case raised r of
           Some e \<Rightarrow> (Inl e, memory', backend r)
         | None \<Rightarrow>
            (let final_state = reached r in
             case rev (messages final_state) of
               [] \<Rightarrow> (Inl (Exn OtherException ''list index out of range''), memory', backend r)
             | agent_response_message # earlier \<Rightarrow>
                (let tool_output_raw = (case tool_output final_state of None \<Rightarrow> ''[]'' | Some t \<Rightarrow> t);
                     agent_text_response = content agent_response_message
                 in case format_tool_output tool_output_raw of
                      Inl e \<Rightarrow> (Inl e, memory', backend r)
                    | Inr formatted_tool_output \<Rightarrow>
                       (Inr (if formatted_tool_output \<noteq> []
                             then agent_text_response @ formatted_tool_output
                             else agent_text_response), memory', backend r))))"

text \<open>
  The endpoint: an empty message is answered at once; otherwise the \<open>try\<close> body runs and
  \<open>except Exception\<close> turns an exception into the apology. The result type keeps the
  exception case, so that "never raises" is a theorem.
\<close>

definition chat_endpoint ::
  "'b env \<Rightarrow> checkpoints \<Rightarrow> chat_request \<Rightarrow> 'b \<Rightarrow> (exn + string) \<times> checkpoints \<times> 'b" where
  "chat_endpoint env memory chat_request b =
     (if message chat_request = [] then (Inr ''Please provide a message.'', memory, b)
      else
        (case chat_try env memory chat_request b of
           (Inl e, memory', b') \<Rightarrow>
             (Inr (''Sorry, an internal error occurred: '' @ exn_str e), memory', b')
         | (Inr response, memory', b') \<Rightarrow> (Inr response, memory', b')))"

section \<open>A test environment\<close>

text \<open>
  A small concrete environment for running the model on examples: a machine whose local
  zone has a fixed offset, two zones without offset changes, a parser for the format the
  tools' docstrings name (\<open>YYYY-MM-DDTHH:MM:SS\<close>, naive), and a calendar
  that is the list of the event payloads inserted so far. Its free/busy answer lists them
  all as busy; its insert answers with an event resource.
\<close>

definition fixed_zone :: "string \<Rightarrow> int \<Rightarrow> zone" where
  "fixed_zone name off = \<lparr>zone_name = name, zone_utcoffset = (\<lambda>t. off), zone_walloffset = (\<lambda>w. off)\<rparr>"

definition kolkata :: tzinfo where
  "kolkata = \<lparr>tz_name = ''Asia/Kolkata'', tz_utcoffset = 19800\<rparr>"

definition utc_zone :: tzinfo where
  "utc_zone = \<lparr>tz_name = ''UTC'', tz_utcoffset = 0\<rparr>"

definition test_timezone :: "string \<Rightarrow> exn + zone" where
  "test_timezone name =
     (if name = ''Asia/Kolkata'' then Inr (fixed_zone ''Asia/Kolkata'' 19800)
      else if name = ''UTC'' then Inr (fixed_zone ''UTC'' 0)
      else Inl (Exn UnknownTimeZoneError name))"

definition num2 :: "char \<Rightarrow> char \<Rightarrow> int" where
  "num2 a b = int ((of_char a - 48) * 10 + (of_char b - 48))"

definition days_in_month :: "int \<Rightarrow> int \<Rightarrow> int" where
  "days_in_month y m =
     (if m = 2 then (if y mod 4 = 0 \<and> (y mod 100 \<noteq> 0 \<or> y mod 400 = 0) then 29 else 28)
      else if m = 4 \<or> m = 6 \<or> m = 9 \<or> m = 11 then 30 else 31)"

definition test_fromisoformat :: "string \<Rightarrow> exn + datetime" where
  "test_fromisoformat s =
     (if length s = 19 \<and> s ! 4 = CHR ''-'' \<and> s ! 7 = CHR ''-'' \<and> s ! 10 = CHR ''T''
         \<and> s ! 13 = CHR '':'' \<and> s ! 16 = CHR '':''
         \<and> list_all is_digit (map (\<lambda>i. s ! i) [0, 1, 2, 3, 5, 6, 8, 9, 11, 12, 14, 15, 17, 18])
      then
        (let y = num2 (s ! 0) (s ! 1) * 100 + num2 (s ! 2) (s ! 3);
             m = num2 (s ! 5) (s ! 6); d = num2 (s ! 8) (s ! 9);
             hh = num2 (s ! 11) (s ! 12); mm = num2 (s ! 14) (s ! 15); ss = num2 (s ! 17) (s ! 18)
         in if 1 \<le> y \<and> 1 \<le> m \<and> m \<le> 12 \<and> 1 \<le> d \<and> d \<le> days_in_month y m
               \<and> hh < 24 \<and> mm < 60 \<and> ss < 60
            then Inr \<lparr>wall = days_from_civil y m d * 86400 + hh * 3600 + mm * 60 + ss,
                      micro = 0, dt_tzinfo = None\<rparr>
            else Inl (Exn ValueError (''Invalid isoformat string: '' @ s)))
      else Inl (Exn ValueError (''Invalid isoformat string: '' @ s)))"

definition busy_of :: "event_body \<Rightarrow> pyval" where
  "busy_of ev = PyDict [(''start'', PyStr (dateTime (ev_start ev))),
                        (''end'', PyStr (dateTime (ev_end ev)))]"

definition test_freebusy :: "freebusy_body \<Rightarrow> event_body list \<Rightarrow> (exn + pyval) \<times> event_body list" where
  "test_freebusy body cal =
     (Inr (PyDict [(''kind'', PyStr ''calendar#freeBusy''),
                   (''calendars'', PyDict [(''primary'', PyDict [(''busy'', PyList (map busy_of cal))])])]),
      cal)"

definition event_resource :: "event_body \<Rightarrow> pyval" where
  "event_resource ev =
     PyDict [(''kind'', PyStr ''calendar#event''),
             (''htmlLink'', PyStr ''https://calendar.example/event''),
             (''summary'', PyStr (ev_summary ev)),
             (''start'', PyDict [(''dateTime'', PyStr (dateTime (ev_start ev))),
                                 (''timeZone'', PyStr (timeZone (ev_start ev)))]),
             (''end'', PyDict [(''dateTime'', PyStr (dateTime (ev_end ev))),
                               (''timeZone'', PyStr (timeZone (ev_end ev)))])]"

definition test_insert :: "event_body \<Rightarrow> event_body list \<Rightarrow> (exn + pyval) \<times> event_body list" where
  "test_insert ev cal = (Inr (event_resource ev), cal @ [ev])"

definition test_env :: "int \<Rightarrow> (message list \<Rightarrow> exn + message) \<Rightarrow> event_body list env" where
  "test_env local_off llm =
     \<lparr>local_utcoffset = (\<lambda>w. Inr local_off),
      pytz_timezone = test_timezone,
      fromisoformat = test_fromisoformat,
      freebusy_query = test_freebusy,
      events_insert = test_insert,
      llm_invoke = llm\<rparr>"

text \<open>Scripted models: each answers every history with one fixed message, or fails.\<close>

definition check_call :: tool_call where
  "check_call =
     \<lparr>tc_name = ''check_calendar_availability_tool'',
      tc_args = [(''start_time_str'', PyStr ''2025-06-25T10:00:00''),
                 (''end_time_str'', PyStr ''2025-06-25T11:00:00''),
                 (''timezone_str'', PyStr ''Asia/Kolkata'')]\<rparr>"

definition create_call :: tool_call where
  "create_call =
     \<lparr>tc_name = ''create_calendar_event_tool'',
      tc_args = [(''summary'', PyStr ''Call''),
                 (''description'', PyStr ''Call with Alice''),
                 (''start_time_str'', PyStr ''2025-06-25T15:00:00''),
                 (''end_time_str'', PyStr ''2025-06-25T15:30:00''),
                 (''attendees'', PyList [PyStr ''alice@x.com'']),
                 (''timezone_str'', PyStr ''UTC'')]\<rparr>"

definition unknown_call :: tool_call where
  "unknown_call = \<lparr>tc_name = ''weather_tool'', tc_args = []\<rparr>"

definition bare_check_call :: tool_call where
  "bare_check_call = \<lparr>tc_name = ''check_calendar_availability_tool'', tc_args = []\<rparr>"

definition says :: "string \<Rightarrow> tool_call list \<Rightarrow> message list \<Rightarrow> exn + message" where
  "says text calls history = Inr (AIMessage text calls)"

definition model_down :: "message list \<Rightarrow> exn + message" where
  "model_down history = Inl (Exn OtherException ''model unavailable'')"

text \<open>The same environment with the calendar service out of order.\<close>

definition outage_env :: "int \<Rightarrow> (message list \<Rightarrow> exn + message) \<Rightarrow> event_body list env" where
  "outage_env local_off llm =
     \<lparr>local_utcoffset = (\<lambda>w. Inr local_off),
      pytz_timezone = test_timezone,
      fromisoformat = test_fromisoformat,
      freebusy_query = (\<lambda>body cal. (Inl (Exn OtherException ''connection reset''), cal)),
      events_insert = (\<lambda>ev cal. (Inl (Exn HttpError ''403 Forbidden''), cal)),
      llm_invoke = llm\<rparr>"

text \<open>A calendar service that answers every request, but not with what the client expects.\<close>

definition garbled_env :: "int \<Rightarrow> (message list \<Rightarrow> exn + message) \<Rightarrow> event_body list env" where
  "garbled_env local_off llm =
     \<lparr>local_utcoffset = (\<lambda>w. Inr local_off),
      pytz_timezone = test_timezone,
      fromisoformat = test_fromisoformat,
      freebusy_query = (\<lambda>body cal. (Inr (PyDict [(''calendars'', PyList [])]), cal)),
      events_insert = (\<lambda>ev cal. (Inr PyNone, cal @ [ev])),
      llm_invoke = llm\<rparr>"

section \<open>Observers used in the statements\<close>

text \<open>
  \<open>recording env\<close> is \<open>env\<close> with a calendar service that also keeps every event payload it
  is sent, in order: the payloads of a run are what the log has gained.
\<close>

definition recording :: "'b env \<Rightarrow> ('b \<times> event_body list) env" where
  "recording env =
     \<lparr>local_utcoffset = local_utcoffset env,
      pytz_timezone = pytz_timezone env,
      fromisoformat = fromisoformat env,
      freebusy_query = (\<lambda>body s. case freebusy_query env body (fst s) of (r, b') \<Rightarrow> (r, (b', snd s))),
      events_insert = (\<lambda>ev s. case events_insert env ev (fst s) of (r, b') \<Rightarrow> (r, (b', snd s @ [ev]))),
      llm_invoke = llm_invoke env\<rparr>"

text \<open>\<open>sub in text\<close>.\<close>

fun contains_text :: "string \<Rightarrow> string \<Rightarrow> bool" where
  "contains_text sub [] = (sub = [])"
| "contains_text sub (c # cs) = (take (length sub) (c # cs) = sub \<or> contains_text sub cs)"

text \<open>The message history saved for each thread.\<close>

definition history :: "checkpoints \<Rightarrow> string \<Rightarrow> message list option" where
  "history memory thread_id = map_option messages (memory thread_id)"

definition prior_state :: "checkpoints \<Rightarrow> string \<Rightarrow> agent_state" where
  "prior_state memory thread_id = (case memory thread_id of None \<Rightarrow> empty_state | Some st \<Rightarrow> st)"

text \<open>
  The history of a session as the specification describes it: a turn adds the user's
  message and then the model's response to it (nothing when the model gave none), and
  nothing else; an empty message is no turn.
\<close>

definition history_step ::
  "(message list \<Rightarrow> exn + message) \<Rightarrow> (string \<Rightarrow> message list option) \<Rightarrow> chat_request
     \<Rightarrow> (string \<Rightarrow> message list option)" where
  "history_step llm h req =
     (if message req = [] then h
      else
        (let asked = (case h (session_id req) of None \<Rightarrow> [] | Some ms \<Rightarrow> ms)
                       @ [HumanMessage (message req)]
         in h(session_id req \<mapsto> asked @ (case llm asked of Inl e \<Rightarrow> [] | Inr response \<Rightarrow> [response]))))"

text \<open>A session: the requests are served one after the other on the same checkpoints and calendar.\<close>

fun run_session :: "'b env \<Rightarrow> checkpoints \<Rightarrow> chat_request list \<Rightarrow> 'b \<Rightarrow> checkpoints \<times> 'b" where
  "run_session env memory [] b = (memory, b)"
| "run_session env memory (req # reqs) b =
     (case chat_endpoint env memory req b of
        (reply, memory', b') \<Rightarrow> run_session env memory' reqs b')"

text \<open>The input that the endpoint hands to the graph for a request.\<close>

definition input_of :: "chat_request \<Rightarrow> state_update" where
  "input_of req = \<lparr>upd_messages = Some [HumanMessage (message req)], upd_tool_output = None\<rparr>"


section \<open>Properties of the tool adapters\<close>

lemma parse_times_fail:
  "pytz_timezone env tz = Inl x \<or> fromisoformat env s = Inl x \<or> fromisoformat env e = Inl x
   \<Longrightarrow> \<exists>y. parse_times env s e tz = Inl y"
  by (auto simp: parse_times_def parse_time_def split: sum.splits)

lemma check_tool_parse_fail:
  "parse_times env s e tz = Inl x \<Longrightarrow>
   check_calendar_availability_tool env s e tz b = (Inr (PyList []), b)"
  by (simp add: check_calendar_availability_tool_def)

lemma create_tool_parse_fail:
  "parse_times env s e tz = Inl x \<Longrightarrow>
   create_calendar_event_tool env sm ds s e att tz b = (Inr (PyDict []), b)"
  by (simp add: create_calendar_event_tool_def)

lemma check_tool_client_raises:
  "parse_times env s e tz = Inr (st, en) \<Longrightarrow>
   fst (check_calendar_availability env st en b) = Inl x \<Longrightarrow>
   fst (check_calendar_availability_tool env s e tz b) = Inr (PyList [])"
  by (auto simp: check_calendar_availability_tool_def split: sum.splits prod.splits)

lemma create_tool_client_raises:
  "parse_times env s e tz = Inr (st, en) \<Longrightarrow>
   fst (create_calendar_event env sm ds st en att b) = Inl x \<Longrightarrow>
   fst (create_calendar_event_tool env sm ds s e att tz b) = Inr (PyDict [])"
  by (auto simp: create_calendar_event_tool_def split: sum.splits prod.splits)

lemma check_tool_request_raises:
  "parse_times env s e tz = Inr (st, en) \<Longrightarrow>
   fst (freebusy_query env \<lparr>timeMin = isoformat st, timeMax = isoformat en, items = [''primary'']\<rparr> b) = Inl x \<Longrightarrow>
   fst (check_calendar_availability_tool env s e tz b) = Inr (PyList [])"
  by (auto simp: check_calendar_availability_tool_def check_calendar_availability_def
      split: sum.splits prod.splits if_splits)

lemma create_tool_request_raises:
  "parse_times env s e tz = Inr (st, en) \<Longrightarrow>
   fst (events_insert env (event_payload sm ds st en att) b) = Inl x \<Longrightarrow>
   fst (create_calendar_event_tool env sm ds s e att tz b) = Inr (PyDict [])"
  by (auto simp: create_calendar_event_tool_def create_calendar_event_def
      split: sum.splits prod.splits if_splits)

lemma check_tool_total: "\<exists>v. fst (check_calendar_availability_tool env s e tz b) = Inr v"
  by (auto simp: check_calendar_availability_tool_def split: sum.splits prod.splits)

lemma create_tool_total: "\<exists>v. fst (create_calendar_event_tool env sm ds s e att tz b) = Inr v"
  by (auto simp: create_calendar_event_tool_def split: sum.splits prod.splits)

text \<open>
  C4. Neither tool body lets an exception out. When the zone name or one of the two
  datetime strings does not parse, or the conversion to the zone fails in any other way,
  \<open>check_calendar_availability_tool\<close> returns the empty list and
  \<open>create_calendar_event_tool\<close> the empty dict, and the calendar is not touched. When the
  strings parse and the downstream call raises (the calendar client itself, also after an
  answered request, or the request to the service, whatever the exception), the results
  are again the empty list and the empty dict. In every case the body returns a value.
\<close>

theorem tool_adapters_degrade:
  "(pytz_timezone env tz = Inl x \<or> fromisoformat env s = Inl x \<or> fromisoformat env e = Inl x
      \<or> parse_times env s e tz = Inl x \<longrightarrow>
      check_calendar_availability_tool env s e tz b = (Inr (PyList []), b) \<and>
      create_calendar_event_tool env sm ds s e att tz b = (Inr (PyDict []), b))
   \<and> (parse_times env s e tz = Inr (st, en) \<and>
        (fst (check_calendar_availability env st en b) = Inl x \<or>
         fst (freebusy_query env \<lparr>timeMin = isoformat st, timeMax = isoformat en,
                                   items = [''primary'']\<rparr> b) = Inl x)
      \<longrightarrow> fst (check_calendar_availability_tool env s e tz b) = Inr (PyList []))
   \<and> (parse_times env s e tz = Inr (st, en) \<and>
        (fst (create_calendar_event env sm ds st en att b) = Inl x \<or>
         fst (events_insert env (event_payload sm ds st en att) b) = Inl x)
      \<longrightarrow> fst (create_calendar_event_tool env sm ds s e att tz b) = Inr (PyDict []))
   \<and> (\<exists>v. fst (check_calendar_availability_tool env s e tz b) = Inr v)
   \<and> (\<exists>v. fst (create_calendar_event_tool env sm ds s e att tz b) = Inr v)"
proof (intro conjI impI)
  assume "pytz_timezone env tz = Inl x \<or> fromisoformat env s = Inl x \<or> fromisoformat env e = Inl x
      \<or> parse_times env s e tz = Inl x"
  then obtain y where y: "parse_times env s e tz = Inl y" using parse_times_fail by blast
  show "check_calendar_availability_tool env s e tz b = (Inr (PyList []), b)"
    using y by (rule check_tool_parse_fail)
  show "create_calendar_event_tool env sm ds s e att tz b = (Inr (PyDict []), b)"
    using y by (rule create_tool_parse_fail)
next
  assume "parse_times env s e tz = Inr (st, en) \<and>
        (fst (check_calendar_availability env st en b) = Inl x \<or>
         fst (freebusy_query env \<lparr>timeMin = isoformat st, timeMax = isoformat en,
                                   items = [''primary'']\<rparr> b) = Inl x)"
  then show "fst (check_calendar_availability_tool env s e tz b) = Inr (PyList [])"
    by (auto intro: check_tool_client_raises check_tool_request_raises)
next
  assume "parse_times env s e tz = Inr (st, en) \<and>
        (fst (create_calendar_event env sm ds st en att b) = Inl x \<or>
         fst (events_insert env (event_payload sm ds st en att) b) = Inl x)"
  then show "fst (create_calendar_event_tool env sm ds s e att tz b) = Inr (PyDict [])"
    by (auto intro: create_tool_client_raises create_tool_request_raises)
next
  show "\<exists>v. fst (check_calendar_availability_tool env s e tz b) = Inr v" by (rule check_tool_total)
  show "\<exists>v. fst (create_calendar_event_tool env sm ds s e att tz b) = Inr v" by (rule create_tool_total)
qed

theorem tool_adapters_degrade_witness:
  "check_calendar_availability_tool (test_env 0 model_down) ''not-a-date'' ''2025-06-25T11:00:00''
       ''Asia/Kolkata'' [] = (Inr (PyList []), [])
   \<and> create_calendar_event_tool (test_env 0 model_down) ''Call'' ''Call with Alice'' ''not-a-date''
        ''2025-06-25T11:00:00'' None ''Asia/Kolkata'' [] = (Inr (PyDict []), [])
   \<and> check_calendar_availability_tool (test_env 0 model_down) ''9999-12-31T23:59:59''
        ''2025-06-25T11:00:00'' ''Asia/Kolkata'' [] = (Inr (PyList []), [])
   \<and> create_calendar_event_tool (test_env 0 model_down) ''Call'' ''Call with Alice''
        ''9999-12-31T23:59:59'' ''2025-06-25T11:00:00'' None ''Asia/Kolkata'' [] = (Inr (PyDict []), [])
   \<and> fst (check_calendar_availability_tool (outage_env 0 model_down) ''2025-06-25T10:00:00''
        ''2025-06-25T11:00:00'' ''Asia/Kolkata'' []) = Inr (PyList [])
   \<and> fst (create_calendar_event_tool (outage_env 0 model_down) ''Call'' ''Call with Alice''
        ''2025-06-25T10:00:00'' ''2025-06-25T11:00:00'' None ''Asia/Kolkata'' []) = Inr (PyDict [])
   \<and> fst (check_calendar_availability_tool (garbled_env 0 model_down) ''2025-06-25T10:00:00''
        ''2025-06-25T11:00:00'' ''Asia/Kolkata'' []) = Inr (PyList [])
   \<and> fst (create_calendar_event_tool (garbled_env 0 model_down) ''Call'' ''Call with Alice''
        ''2025-06-25T10:00:00'' ''2025-06-25T11:00:00'' None ''Asia/Kolkata'' []) = Inr (PyDict [])"
proof -
  let ?st = "\<lparr>wall = 1750865400, micro = 0, dt_tzinfo = Some kolkata\<rparr>"
  let ?en = "\<lparr>wall = 1750869000, micro = 0, dt_tzinfo = Some kolkata\<rparr>"
  have bad: "fromisoformat (test_env 0 model_down) ''not-a-date''
               = Inl (Exn ValueError ''Invalid isoformat string: not-a-date'')"
    by code_simp
  have over: "parse_times (test_env 0 model_down) ''9999-12-31T23:59:59'' ''2025-06-25T11:00:00''
                ''Asia/Kolkata'' = Inl (Exn OverflowError ''date value out of range'')"
    by code_simp
  have ok1: "parse_times (outage_env 0 model_down) ''2025-06-25T10:00:00'' ''2025-06-25T11:00:00''
               ''Asia/Kolkata'' = Inr (?st, ?en)"
    by code_simp
  have ok2: "parse_times (garbled_env 0 model_down) ''2025-06-25T10:00:00'' ''2025-06-25T11:00:00''
               ''Asia/Kolkata'' = Inr (?st, ?en)"
    by code_simp
  have q: "fst (freebusy_query (outage_env 0 model_down)
                 \<lparr>timeMin = isoformat ?st, timeMax = isoformat ?en, items = [''primary'']\<rparr> [])
             = Inl (Exn OtherException ''connection reset'')"
    by (simp add: outage_env_def)
  have i: "fst (events_insert (outage_env 0 model_down)
                 (event_payload ''Call'' ''Call with Alice'' ?st ?en None) [])
             = Inl (Exn HttpError ''403 Forbidden'')"
    by (simp add: outage_env_def)
  have g1: "fst (check_calendar_availability (garbled_env 0 model_down) ?st ?en [])
              = Inl (Exn AttributeError ''object has no attribute get'')"
    by code_simp
  have g2: "fst (create_calendar_event (garbled_env 0 model_down) ''Call'' ''Call with Alice'' ?st ?en None [])
              = Inl (Exn AttributeError ''object has no attribute get'')"
    by code_simp
  note T1 = tool_adapters_degrade [of "test_env 0 model_down" "''Asia/Kolkata''"
      "Exn ValueError ''Invalid isoformat string: not-a-date''" "''not-a-date''" "''2025-06-25T11:00:00''"
      "[]" "''Call''" "''Call with Alice''" None]
  have a: "check_calendar_availability_tool (test_env 0 model_down) ''not-a-date'' ''2025-06-25T11:00:00''
       ''Asia/Kolkata'' [] = (Inr (PyList []), [])
   \<and> create_calendar_event_tool (test_env 0 model_down) ''Call'' ''Call with Alice'' ''not-a-date''
        ''2025-06-25T11:00:00'' None ''Asia/Kolkata'' [] = (Inr (PyDict []), [])"
    by (rule mp [OF conjunct1 [OF T1]]) (rule disjI2, rule disjI1, rule bad)
  note T2 = tool_adapters_degrade [of "test_env 0 model_down" "''Asia/Kolkata''"
      "Exn OverflowError ''date value out of range''" "''9999-12-31T23:59:59''" "''2025-06-25T11:00:00''"
      "[]" "''Call''" "''Call with Alice''" None]
  have o: "check_calendar_availability_tool (test_env 0 model_down) ''9999-12-31T23:59:59''
        ''2025-06-25T11:00:00'' ''Asia/Kolkata'' [] = (Inr (PyList []), [])
   \<and> create_calendar_event_tool (test_env 0 model_down) ''Call'' ''Call with Alice''
        ''9999-12-31T23:59:59'' ''2025-06-25T11:00:00'' None ''Asia/Kolkata'' [] = (Inr (PyDict []), [])"
    by (rule mp [OF conjunct1 [OF T2]]) (rule disjI2, rule disjI2, rule disjI2, rule over)
  note T3 = tool_adapters_degrade [of "outage_env 0 model_down" "''Asia/Kolkata''"
      "Exn OtherException ''connection reset''" "''2025-06-25T10:00:00''" "''2025-06-25T11:00:00''"
      "[]" "''Call''" "''Call with Alice''" None ?st ?en]
  have b: "fst (check_calendar_availability_tool (outage_env 0 model_down) ''2025-06-25T10:00:00''
        ''2025-06-25T11:00:00'' ''Asia/Kolkata'' []) = Inr (PyList [])"
    by (rule mp [OF conjunct1 [OF conjunct2 [OF T3]]]) (rule conjI, rule ok1, rule disjI2, rule q)
  note T4 = tool_adapters_degrade [of "outage_env 0 model_down" "''Asia/Kolkata''"
      "Exn HttpError ''403 Forbidden''" "''2025-06-25T10:00:00''" "''2025-06-25T11:00:00''"
      "[]" "''Call''" "''Call with Alice''" None ?st ?en]
  have c: "fst (create_calendar_event_tool (outage_env 0 model_down) ''Call'' ''Call with Alice''
        ''2025-06-25T10:00:00'' ''2025-06-25T11:00:00'' None ''Asia/Kolkata'' []) = Inr (PyDict [])"
    by (rule mp [OF conjunct1 [OF conjunct2 [OF conjunct2 [OF T4]]]])
       (rule conjI, rule ok1, rule disjI2, rule i)
  note T5 = tool_adapters_degrade [of "garbled_env 0 model_down" "''Asia/Kolkata''"
      "Exn AttributeError ''object has no attribute get''" "''2025-06-25T10:00:00''" "''2025-06-25T11:00:00''"
      "[]" "''Call''" "''Call with Alice''" None ?st ?en]
  have d1: "fst (check_calendar_availability_tool (garbled_env 0 model_down) ''2025-06-25T10:00:00''
        ''2025-06-25T11:00:00'' ''Asia/Kolkata'' []) = Inr (PyList [])"
    by (rule mp [OF conjunct1 [OF conjunct2 [OF T5]]]) (rule conjI, rule ok2, rule disjI1, rule g1)
  have d2: "fst (create_calendar_event_tool (garbled_env 0 model_down) ''Call'' ''Call with Alice''
        ''2025-06-25T10:00:00'' ''2025-06-25T11:00:00'' None ''Asia/Kolkata'' []) = Inr (PyDict [])"
    by (rule mp [OF conjunct1 [OF conjunct2 [OF conjunct2 [OF T5]]]])
       (rule conjI, rule ok2, rule disjI1, rule g2)
  show ?thesis
    by (intro conjI) (rule conjunct1 [OF a], rule conjunct2 [OF a], rule conjunct1 [OF o],
        rule conjunct2 [OF o], rule b, rule c, rule d1, rule d2)
qed

section \<open>The event payload\<close>

lemma parse_time_recording: "parse_time (recording env) z s = parse_time env z s"
  by (simp add: parse_time_def recording_def split: sum.splits)

lemma pytz_timezone_recording: "pytz_timezone (recording env) tz = pytz_timezone env tz"
  by (simp add: recording_def)

lemma parse_times_recording: "parse_times (recording env) s e tz = parse_times env s e tz"
  unfolding parse_times_def parse_time_recording pytz_timezone_recording by (rule refl)

lemma events_insert_recording:
  "events_insert (recording env) ev (b, log) =
     (fst (events_insert env ev b), (snd (events_insert env ev b), log @ [ev]))"
  by (simp add: recording_def split: prod.splits)

text \<open>
  C9. Whatever the arguments of \<open>create_calendar_event_tool\<close>, the calendar service is
  sent nothing when the strings do not convert, and otherwise exactly one payload: the one
  built from the converted datetimes. Every such payload has the time zone name
  \<open>Asia/Kolkata\<close> in its start and its end. The argument \<open>timezone_str\<close> enters only through
  the conversion \<open>parse_times\<close>.
\<close>

theorem create_event_payload_timezone:
  "snd (snd (create_calendar_event_tool (recording env) sm ds s e att tz (b, log)))
     = log @ (case parse_times env s e tz of
                Inl x \<Rightarrow> []
              | Inr p \<Rightarrow> [event_payload sm ds (fst p) (snd p) att])
   \<and> timeZone (ev_start (event_payload sm ds st en att)) = ''Asia/Kolkata''
   \<and> timeZone (ev_end (event_payload sm ds st en att)) = ''Asia/Kolkata''"
proof (intro conjI)
  show "snd (snd (create_calendar_event_tool (recording env) sm ds s e att tz (b, log)))
     = log @ (case parse_times env s e tz of
                Inl x \<Rightarrow> []
              | Inr p \<Rightarrow> [event_payload sm ds (fst p) (snd p) att])"
    by (auto simp: create_calendar_event_tool_def create_calendar_event_def parse_times_recording
        events_insert_recording split: sum.splits prod.splits)
  show "timeZone (ev_start (event_payload sm ds st en att)) = ''Asia/Kolkata''"
    by (simp add: event_payload_def)
  show "timeZone (ev_end (event_payload sm ds st en att)) = ''Asia/Kolkata''"
    by (simp add: event_payload_def)
qed

theorem create_event_payload_timezone_witness:
  "snd (snd (create_calendar_event_tool (recording (test_env 0 model_down)) ''Call'' ''Call with Alice''
           ''2025-06-25T15:00:00'' ''2025-06-25T15:30:00'' (Some [''alice@x.com'']) ''UTC'' ([], [])))
     = [\<lparr>ev_summary = ''Call'', ev_description = ''Call with Alice'',
         ev_start = \<lparr>dateTime = ''2025-06-25T15:00:00+00:00'', timeZone = ''Asia/Kolkata''\<rparr>,
         ev_end = \<lparr>dateTime = ''2025-06-25T15:30:00+00:00'', timeZone = ''Asia/Kolkata''\<rparr>,
         ev_reminders_useDefault = True, ev_attendees = Some [''alice@x.com'']\<rparr>]"
proof -
  have p: "parse_times (test_env 0 model_down) ''2025-06-25T15:00:00'' ''2025-06-25T15:30:00'' ''UTC''
             = Inr (\<lparr>wall = 1750863600, micro = 0, dt_tzinfo = Some utc_zone\<rparr>,
                    \<lparr>wall = 1750865400, micro = 0, dt_tzinfo = Some utc_zone\<rparr>)"
    by code_simp
  have e: "event_payload ''Call'' ''Call with Alice'' \<lparr>wall = 1750863600, micro = 0, dt_tzinfo = Some utc_zone\<rparr>
             \<lparr>wall = 1750865400, micro = 0, dt_tzinfo = Some utc_zone\<rparr> (Some [''alice@x.com''])
           = \<lparr>ev_summary = ''Call'', ev_description = ''Call with Alice'',
         ev_start = \<lparr>dateTime = ''2025-06-25T15:00:00+00:00'', timeZone = ''Asia/Kolkata''\<rparr>,
         ev_end = \<lparr>dateTime = ''2025-06-25T15:30:00+00:00'', timeZone = ''Asia/Kolkata''\<rparr>,
         ev_reminders_useDefault = True, ev_attendees = Some [''alice@x.com'']\<rparr>"
    by code_simp
  from create_event_payload_timezone [of "test_env 0 model_down" "''Call''" "''Call with Alice''"
      "''2025-06-25T15:00:00''" "''2025-06-25T15:30:00''" "Some [''alice@x.com'']" "''UTC''" "[]" "[]"]
  show ?thesis by (simp add: p e)
qed

end
